theory Spec2Isabelle
  imports Complex_Main
begin

section \<open>Python values and built-ins used by \<open>outetts/version/v1/interface.py\<close>\<close>

text \<open>
  Exceptions are values. \<open>ValueError\<close> is the only exception the interface raises itself;
  \<open>ZeroDivisionError\<close> and \<open>IndexError\<close> come from the operators \<open>%\<close>, \<open>/\<close> and
  \<open>[0]\<close> it applies; \<open>CollaboratorError\<close> stands for any exception that leaves one of the
  components the interface calls (prompt processor, tokenizer, codec, backend model,
  aligner, whisper, file system), with its message.
\<close>

datatype error =
    ValueError string
  | ZeroDivisionError
  | IndexError
  | CollaboratorError string

text \<open>
  The text \<open>f"{e}"\<close> prints for a caught exception. The interface catches exceptions
  only around \<open>get_audio\<close>, which raises none of its own.
\<close>

fun error_message :: "error \<Rightarrow> string" where
  "error_message (ValueError m) = m"
| "error_message (CollaboratorError m) = m"
| "error_message e = []"


text \<open>
  What a call does besides returning: the lines it hands to the logger and its invocations
  of the backend model, in program order.
\<close>

datatype event =
    LogInfo string
  | LogWarning string
  | ModelGenerate
  | ModelGenerateStream

type_synonym 'r effect = "(error + 'r) \<times> event list"

definition ret :: "'r \<Rightarrow> 'r effect" where
  "ret x = (Inr x, [])"

definition raise :: "error \<Rightarrow> 'r effect" where
  "raise e = (Inl e, [])"

definition call :: "error + 'r \<Rightarrow> 'r effect" where
  "call r = (r, [])"

definition emit :: "event \<Rightarrow> unit effect" where
  "emit ev = (Inr (), [ev])"

definition bind_eff :: "'r effect \<Rightarrow> ('r \<Rightarrow> 's effect) \<Rightarrow> 's effect" where
  "bind_eff m f =
     (case fst m of
        Inl e \<Rightarrow> (Inl e, snd m)
      | Inr x \<Rightarrow> (fst (f x), snd m @ snd (f x)))"

definition when_eff :: "bool \<Rightarrow> unit effect \<Rightarrow> unit effect" where
  "when_eff b m = (if b then m else ret ())"

text \<open>\<open>str(n)\<close> of an integer, as the f-strings of the messages print it.\<close>

fun str_nat :: "nat \<Rightarrow> string" where
  "str_nat n =
     (if n < 10 then [char_of (48 + n)]
      else str_nat (n div 10) @ [char_of (48 + n mod 10)])"

definition str_int :: "int \<Rightarrow> string" where
  "str_int i = (if i < 0 then ''-'' @ str_nat (nat (- i)) else str_nat (nat i))"

text \<open>
  \<open>str.lower()\<close> and \<open>str.strip()\<close>. A \<open>char\<close> stands for a code point below 256:
  the upper-case letters there are A-Z and U+00C0-U+00DE without the multiplication sign
  U+00D7, each 32 below its lower-case letter; the white space \<open>strip\<close> removes is
  U+0009-U+000D, U+001C-U+0020, U+0085 and U+00A0. Texts with code points from 256 on
  are outside the model.
\<close>

definition py_lower_char :: "char \<Rightarrow> char" where
  "py_lower_char c =
     (let n = (of_char c :: nat)
      in if (65 \<le> n \<and> n \<le> 90) \<or> (192 \<le> n \<and> n \<le> 222 \<and> n \<noteq> 215)
         then char_of (n + 32) else c)"

definition py_lower :: "string \<Rightarrow> string" where
  "py_lower s = map py_lower_char s"

definition py_isspace :: "char \<Rightarrow> bool" where
  "py_isspace c =
     (let n = (of_char c :: nat)
      in (9 \<le> n \<and> n \<le> 13) \<or> (28 \<le> n \<and> n \<le> 32) \<or> n = 133 \<or> n = 160)"

definition py_strip :: "string \<Rightarrow> string" where
  "py_strip s = rev (dropWhile py_isspace (rev (dropWhile py_isspace s)))"

text \<open>
  \<open>round(x)\<close> rounds half to even; \<open>round(x, 2)\<close> does so at the second decimal.
  Python computes both on binary floating point numbers; here the argument is the exact
  quotient, a rational.
\<close>

definition py_round :: "rat \<Rightarrow> int" where
  "py_round x =
     (let f = \<lfloor>x\<rfloor>; d = x - of_int f
      in if d < 1 / 2 then f
         else if 1 / 2 < d then f + 1
         else if even f then f else f + 1)"

definition py_round2 :: "rat \<Rightarrow> rat" where
  "py_round2 x = of_int (py_round (x * 100)) / 100"

text \<open>
  The slice \<open>xs[start:end]\<close>: a negative bound counts from the end, and both bounds are
  clipped to the list.
\<close>

definition slice_bound :: "nat \<Rightarrow> int \<Rightarrow> nat" where
  "slice_bound n i = (if i < 0 then nat (max (i + int n) 0) else min (nat i) n)"

definition py_slice :: "'x list \<Rightarrow> int \<Rightarrow> int \<Rightarrow> 'x list" where
  "py_slice xs start stop =
     (let s = slice_bound (length xs) start; e = slice_bound (length xs) stop
      in take (e - s) (drop s xs))"

text \<open>\<open>os.path.join(a, b)\<close> on a POSIX system.\<close>

definition os_path_join :: "string \<Rightarrow> string \<Rightarrow> string" where
  "os_path_join a b =
     (if b \<noteq> [] \<and> hd b = CHR ''/'' then b
      else if a = [] \<or> last a = CHR ''/'' then a @ b
      else a @ ''/'' @ b)"

section \<open>The data of the interface\<close>

text \<open>
  A speaker profile is the dictionary \<open>create_speaker\<close> returns and \<open>save_speaker\<close>
  writes: keys \<open>text\<close>, \<open>words\<close>, \<open>language\<close>, each word a dictionary with keys
  \<open>word\<close>, \<open>duration\<close>, \<open>codes\<close>.
\<close>

record WordEntry =
  word :: string
  duration :: rat
  codes :: "int list"

record Speaker =
  sp_text :: string
  sp_words :: "WordEntry list"
  sp_language :: string

text \<open>One entry of the list the forced aligner returns (keys \<open>word\<close>, \<open>audio\<close>, \<open>x1\<close>).\<close>

record 'a AlignedWord =
  aw_word :: string
  aw_audio :: 'a
  aw_x1 :: int

record 'g GenerationConfig =
  temperature :: rat
  repetition_penalty :: rat
  max_length :: "int option"
  additional_gen_config :: 'g

record 'a ModelOutput =
  audio :: "'a option"
  sr :: int
  enable_playback :: bool

text \<open>
  The fields of \<open>HFModelConfig\<close> (and of its subclasses \<open>GGUFModelConfig\<close>,
  \<open>EXL2ModelConfig\<close>) that the interface itself reads; the others go to the constructors
  of the codec, the prompt processor and the model.
\<close>

record HFModelConfig =
  cfg_language :: string
  cfg_languages :: "string list"
  cfg_verbose :: bool
  max_seq_length :: int

record Interface =
  config :: HFModelConfig
  languages :: "string list"
  language :: string
  verbose :: bool

definition init_interface :: "HFModelConfig \<Rightarrow> Interface" where
  "init_interface cfg =
     \<lparr>config = cfg, languages = cfg_languages cfg, language = cfg_language cfg,
      verbose = cfg_verbose cfg\<rparr>"

text \<open>
  The components an interface owns or calls, by what they return: \<open>'a\<close> is a waveform
  tensor, \<open>'g\<close> an opaque dictionary of extra generation options. A backend's token
  stream is the finite list of the tokens it yields.
\<close>

record ('a, 'g) collaborators =
  get_completion_prompt :: "string \<Rightarrow> string \<Rightarrow> Speaker option \<Rightarrow> error + string"
  tokenizer_encode :: "string \<Rightarrow> error + int list"
  extract_audio_from_tokens :: "int list \<Rightarrow> int list"
  codec_decode :: "int list \<Rightarrow> error + 'a"
  codec_encode :: "'a list \<Rightarrow> int \<Rightarrow> error + int list list list"
  codec_sr :: int
  model_generate :: "int list \<Rightarrow> 'g GenerationConfig \<Rightarrow> error + int list"
  model_generate_stream :: "int list \<Rightarrow> 'g GenerationConfig \<Rightarrow> error + int list"
  exl2_model_generate :: "string \<Rightarrow> 'g GenerationConfig \<Rightarrow> 'g \<Rightarrow> error + int list"
  transcribe_once :: "string \<Rightarrow> string \<Rightarrow> string option \<Rightarrow> error + string"
  ctc_align :: "string list \<Rightarrow> string \<Rightarrow> string \<Rightarrow> string \<Rightarrow> error + 'a AlignedWord list"
  ctc_sample_rate :: int
  json_load :: "string \<Rightarrow> error + Speaker"
  ENABLE_PLAYBACK :: bool

section \<open>Generation\<close>

definition prepare_prompt :: "('a, 'g) collaborators \<Rightarrow> Interface \<Rightarrow> string \<Rightarrow> Speaker option \<Rightarrow> int list effect" where
  "prepare_prompt c self text_in speaker =
     bind_eff (call (get_completion_prompt c text_in (language self) speaker)) (\<lambda>prompt.
     call (tokenizer_encode c prompt))"

definition prepare_prompt_exl2 :: "('a, 'g) collaborators \<Rightarrow> Interface \<Rightarrow> string \<Rightarrow> Speaker option \<Rightarrow> string effect" where
  "prepare_prompt_exl2 c self text_in speaker =
     call (get_completion_prompt c text_in (language self) speaker)"

definition get_audio :: "('a, 'g) collaborators \<Rightarrow> int list \<Rightarrow> 'a option effect" where
  "get_audio c tokens =
     (let output = extract_audio_from_tokens c tokens
      in if output = []
         then bind_eff (emit (LogWarning ''No audio tokens found in the output'')) (\<lambda>_. ret None)
         else bind_eff (call (codec_decode c output)) (\<lambda>a. ret (Some a)))"

definition check_generation_max_length :: "Interface \<Rightarrow> int option \<Rightarrow> unit effect" where
  "check_generation_max_length self max_len =
     (case max_len of
        None \<Rightarrow> raise (ValueError ''max_length must be specified.'')
      | Some m \<Rightarrow>
          if max_seq_length (config self) < m
          then raise (ValueError (''Requested max_length ('' @ str_int m
                 @ '') exceeds the current max_seq_length (''
                 @ str_int (max_seq_length (config self)) @ '').''))
          else ret ())"

definition new_output :: "('a, 'g) collaborators \<Rightarrow> 'a option \<Rightarrow> 'a ModelOutput" where
  "new_output c a = \<lparr>audio = a, sr = codec_sr c, enable_playback = ENABLE_PLAYBACK c\<rparr>"

text \<open>\<open>InterfaceHF.generate\<close>: the model returns prompt and continuation, the prompt is cut off.\<close>

definition generate_hf ::
  "('a, 'g) collaborators \<Rightarrow> Interface \<Rightarrow> string \<Rightarrow> Speaker option \<Rightarrow> rat \<Rightarrow> rat \<Rightarrow> int option \<Rightarrow> 'g
     \<Rightarrow> 'a ModelOutput effect" where
  "generate_hf c self text_in speaker temp rep_pen max_len add_cfg =
     bind_eff (prepare_prompt c self text_in speaker) (\<lambda>input_ids.
     bind_eff (when_eff (verbose self)
       (bind_eff (emit (LogInfo (''Input tokens: '' @ str_int (int (length input_ids))))) (\<lambda>_.
        emit (LogInfo ''Generating audio...'')))) (\<lambda>_.
     bind_eff (check_generation_max_length self max_len) (\<lambda>_.
     bind_eff (emit ModelGenerate) (\<lambda>_.
     bind_eff (call (model_generate c input_ids
       \<lparr>temperature = temp, repetition_penalty = rep_pen, max_length = max_len,
        additional_gen_config = add_cfg\<rparr>)) (\<lambda>output.
     bind_eff (get_audio c (drop (length input_ids) output)) (\<lambda>a.
     bind_eff (when_eff (verbose self) (emit (LogInfo ''Audio generation completed''))) (\<lambda>_.
     ret (new_output c a))))))))"

text \<open>\<open>InterfaceGGUF.generate\<close>: the whole output goes to \<open>get_audio\<close>.\<close>

definition generate_gguf ::
  "('a, 'g) collaborators \<Rightarrow> Interface \<Rightarrow> string \<Rightarrow> Speaker option \<Rightarrow> rat \<Rightarrow> rat \<Rightarrow> int option \<Rightarrow> 'g
     \<Rightarrow> 'a ModelOutput effect" where
  "generate_gguf c self text_in speaker temp rep_pen max_len add_cfg =
     bind_eff (prepare_prompt c self text_in speaker) (\<lambda>input_ids.
     bind_eff (when_eff (verbose self)
       (bind_eff (emit (LogInfo (''Input tokens: '' @ str_int (int (length input_ids))))) (\<lambda>_.
        emit (LogInfo ''Generating audio...'')))) (\<lambda>_.
     bind_eff (check_generation_max_length self max_len) (\<lambda>_.
     bind_eff (emit ModelGenerate) (\<lambda>_.
     bind_eff (call (model_generate c input_ids
       \<lparr>temperature = temp, repetition_penalty = rep_pen, max_length = max_len,
        additional_gen_config = add_cfg\<rparr>)) (\<lambda>output.
     bind_eff (get_audio c output) (\<lambda>a.
     bind_eff (when_eff (verbose self) (emit (LogInfo ''Audio generation completed''))) (\<lambda>_.
     ret (new_output c a))))))))"

text \<open>
  \<open>InterfaceEXL2.generate\<close>: the prompt stays a string (the logged count is its length),
  and the model takes one more dictionary of options.
\<close>

definition generate_exl2 ::
  "('a, 'g) collaborators \<Rightarrow> Interface \<Rightarrow> string \<Rightarrow> Speaker option \<Rightarrow> rat \<Rightarrow> rat \<Rightarrow> int option \<Rightarrow> 'g \<Rightarrow> 'g
     \<Rightarrow> 'a ModelOutput effect" where
  "generate_exl2 c self text_in speaker temp rep_pen max_len add_cfg dyn_cfg =
     bind_eff (prepare_prompt_exl2 c self text_in speaker) (\<lambda>input_ids.
     bind_eff (when_eff (verbose self)
       (bind_eff (emit (LogInfo (''Input tokens: '' @ str_int (int (length input_ids))))) (\<lambda>_.
        emit (LogInfo ''Generating audio...'')))) (\<lambda>_.
     bind_eff (check_generation_max_length self max_len) (\<lambda>_.
     bind_eff (emit ModelGenerate) (\<lambda>_.
     bind_eff (call (exl2_model_generate c input_ids
       \<lparr>temperature = temp, repetition_penalty = rep_pen, max_length = max_len,
        additional_gen_config = add_cfg\<rparr> dyn_cfg)) (\<lambda>output.
     bind_eff (get_audio c output) (\<lambda>a.
     bind_eff (when_eff (verbose self) (emit (LogInfo ''Audio generation completed''))) (\<lambda>_.
     ret (new_output c a))))))))"

section \<open>Streaming generation\<close>

text \<open>
  \<open>InterfaceGGUF.generate_stream\<close> is a generator. Its value here is what a consumer that
  pulls until the generator stops gets: the outputs yielded, in order, the exception that
  ended it (if one did), and the events. Nothing of the body runs before the first pull.
\<close>

type_synonym 'a stream_result = "('a ModelOutput list \<times> error option) \<times> event list"

definition yield_out :: "'a ModelOutput \<Rightarrow> event list \<Rightarrow> 'a stream_result \<Rightarrow> 'a stream_result" where
  "yield_out out ev r = ((out # fst (fst r), snd (fst r)), ev @ snd r)"

definition after_events :: "event list \<Rightarrow> 'a stream_result \<Rightarrow> 'a stream_result" where
  "after_events ev r = (fst r, ev @ snd r)"

text \<open>
  The \<open>for token in ...\<close> loop and the final chunk after it. \<open>generated_tokens\<close> is the
  buffer; the tokens still to come are the last argument.
\<close>

fun stream_loop ::
  "('a, 'g) collaborators \<Rightarrow> bool \<Rightarrow> int \<Rightarrow> int list \<Rightarrow> int list \<Rightarrow> 'a stream_result" where
  "stream_loop c vb chunk_size generated_tokens [] =
     (let completed = (if vb then [LogInfo ''Streaming audio generation completed''] else [])
      in if generated_tokens \<noteq> []
         then (case get_audio c generated_tokens of
                 (Inl e, ev) \<Rightarrow> (([], Some e), ev)
               | (Inr final_audio, ev) \<Rightarrow>
                   yield_out (new_output c final_audio) ev (([], None), completed))
         else (([], None), completed))"
| "stream_loop c vb chunk_size generated_tokens (token # rest) =
     (let generated_tokens = generated_tokens @ [token]
      in if chunk_size = 0 then (([], Some ZeroDivisionError), [])
         else if int (length generated_tokens) mod chunk_size = 0
         then (case get_audio c generated_tokens of
                 (Inr audio_chunk, ev) \<Rightarrow>
                   yield_out (new_output c audio_chunk) ev (stream_loop c vb chunk_size [] rest)
               | (Inl e, ev) \<Rightarrow>
                   after_events
                     (ev @ (if vb then [LogWarning (''Error generating audio chunk: '' @ error_message e)]
                            else []))
                     (stream_loop c vb chunk_size generated_tokens rest))
         else stream_loop c vb chunk_size generated_tokens rest)"

definition generate_stream ::
  "('a, 'g) collaborators \<Rightarrow> Interface \<Rightarrow> string \<Rightarrow> Speaker option \<Rightarrow> rat \<Rightarrow> rat \<Rightarrow> int option \<Rightarrow> int \<Rightarrow> 'g
     \<Rightarrow> 'a stream_result" where
  "generate_stream c self text_in speaker temp rep_pen max_len chunk_size add_cfg =
     (let started =
        bind_eff (prepare_prompt c self text_in speaker) (\<lambda>input_ids.
        bind_eff (when_eff (verbose self)
          (bind_eff (emit (LogInfo (''Input tokens: '' @ str_int (int (length input_ids))))) (\<lambda>_.
           emit (LogInfo ''Streaming audio generation...'')))) (\<lambda>_.
        bind_eff (check_generation_max_length self max_len) (\<lambda>_.
        bind_eff (emit ModelGenerateStream) (\<lambda>_.
        call (model_generate_stream c input_ids
          \<lparr>temperature = temp, repetition_penalty = rep_pen, max_length = max_len,
           additional_gen_config = add_cfg\<rparr>)))))
      in case fst started of
           Inl e \<Rightarrow> (([], Some e), snd started)
         | Inr tokens \<Rightarrow>
             after_events (snd started) (stream_loop c (verbose self) chunk_size [] tokens))"

section \<open>Speaker catalog and language\<close>

text \<open>
  \<open>BASE_DIR\<close> is the directory of the installed module, a parameter here.
\<close>

definition DEFAULT_SPEAKERS_DIR :: "string \<Rightarrow> string" where
  "DEFAULT_SPEAKERS_DIR base_dir = os_path_join base_dir ''default_speakers''"

definition get_speaker_path :: "string \<Rightarrow> string \<Rightarrow> string" where
  "get_speaker_path base_dir speaker_name =
     os_path_join (DEFAULT_SPEAKERS_DIR base_dir) (speaker_name @ ''.json'')"

definition DEFAULT_SPEAKERS :: "string \<Rightarrow> (string \<times> (string \<times> string) list) list" where
  "DEFAULT_SPEAKERS base_dir =
     [(''en'',
        [(''male_1'', get_speaker_path base_dir ''en_male_1''),
         (''male_2'', get_speaker_path base_dir ''en_male_2''),
         (''male_3'', get_speaker_path base_dir ''en_male_3''),
         (''male_4'', get_speaker_path base_dir ''en_male_4''),
         (''female_1'', get_speaker_path base_dir ''en_female_1''),
         (''female_2'', get_speaker_path base_dir ''en_female_2'')]),
      (''ja'',
        [(''male_1'', get_speaker_path base_dir ''ja_male_1''),
         (''female_1'', get_speaker_path base_dir ''ja_female_1''),
         (''female_2'', get_speaker_path base_dir ''ja_female_2''),
         (''female_3'', get_speaker_path base_dir ''ja_female_3'')]),
      (''ko'',
        [(''male_1'', get_speaker_path base_dir ''ko_male_1''),
         (''male_2'', get_speaker_path base_dir ''ko_male_2''),
         (''female_1'', get_speaker_path base_dir ''ko_female_1''),
         (''female_2'', get_speaker_path base_dir ''ko_female_2'')]),
      (''zh'',
        [(''male_1'', get_speaker_path base_dir ''zh_male_1''),
         (''female_1'', get_speaker_path base_dir ''zh_female_1'')])]"

text \<open>\<open>load_speaker\<close> opens the file and parses it with \<open>json.load\<close>: the collaborator \<open>json_load\<close>.\<close>

definition load_speaker :: "('a, 'g) collaborators \<Rightarrow> string \<Rightarrow> Speaker effect" where
  "load_speaker c path = call (json_load c path)"

definition load_default_speaker ::
  "('a, 'g) collaborators \<Rightarrow> string \<Rightarrow> Interface \<Rightarrow> string \<Rightarrow> Speaker effect" where
  "load_default_speaker c base_dir self name =
     (let name = py_strip (py_lower name);
          lang = py_strip (py_lower (language self))
      in case map_of (DEFAULT_SPEAKERS base_dir) lang of
           None \<Rightarrow> raise (ValueError (''Speaker for language '' @ lang @ '' not found''))
         | Some speakers \<Rightarrow>
             (case map_of speakers name of
                None \<Rightarrow> raise (ValueError (''Speaker '' @ name @ '' not found for language '' @ lang))
              | Some path \<Rightarrow> load_speaker c path))"

definition change_language :: "Interface \<Rightarrow> string \<Rightarrow> error + Interface" where
  "change_language self lang =
     (let lang = py_strip (py_lower lang)
      in if lang \<notin> set (languages self)
         then Inl (ValueError (''Language '' @ lang @ '' is not supported by the current model''))
         else Inr (self\<lparr>language := lang\<rparr>))"

section \<open>Speaker enrollment\<close>

text \<open>
  The loop of \<open>create_speaker\<close> over the aligned words. \<open>start\<close> is the token index where
  the previous word ended; the quotient \<open>x1 / sample_rate\<close> raises on a zero rate and
  \<open>full_codes[0][0]\<close> on an empty encoding.
\<close>

definition token_end :: "int \<Rightarrow> int \<Rightarrow> int" where
  "token_end sample_rate x1 = py_round ((of_int x1 / of_int sample_rate) * 75)"

fun speaker_words :: "int \<Rightarrow> int list list list \<Rightarrow> int \<Rightarrow> 'a AlignedWord list \<Rightarrow> error + WordEntry list" where
  "speaker_words sample_rate full_codes start [] = Inr []"
| "speaker_words sample_rate full_codes start (i # rest) =
     (if sample_rate = 0 then Inl ZeroDivisionError
      else
        let stop = token_end sample_rate (aw_x1 i)
        in case full_codes of
             [] \<Rightarrow> Inl IndexError
           | batch # _ \<Rightarrow>
               (case batch of
                  [] \<Rightarrow> Inl IndexError
                | row # _ \<Rightarrow>
                    (let word_tokens = py_slice row start stop;
                         word_tokens = (if word_tokens = [] then [1] else word_tokens)
                     in case speaker_words sample_rate full_codes stop rest of
                          Inl e \<Rightarrow> Inl e
                        | Inr data \<Rightarrow>
                            Inr (\<lparr>word = aw_word i,
                                  duration = py_round2 (of_nat (length word_tokens) / 75),
                                  codes = word_tokens\<rparr> # data))))"

text \<open>
  \<open>create_speaker\<close>. \<open>ctc_align\<close> stands for building the aligner and calling its
  \<open>align\<close>; \<open>codec_encode\<close> for concatenating the words' audio, converting it from the
  aligner's sample rate and encoding it, as a nested list. \<open>ctc.free()\<close> returns nothing and
  is left out.
\<close>

definition create_speaker ::
  "('a, 'g) collaborators \<Rightarrow> Interface \<Rightarrow> string \<Rightarrow> string option \<Rightarrow> string \<Rightarrow> string option
     \<Rightarrow> Speaker effect" where
  "create_speaker c self audio_path transcript whisper_model whisper_device =
     bind_eff
       (case transcript of
          None \<Rightarrow>
            bind_eff (emit (LogInfo ''Transcription not provided, transcribing audio with whisper.''))
              (\<lambda>_. call (transcribe_once c audio_path whisper_model whisper_device))
        | Some t \<Rightarrow> ret t) (\<lambda>transcript.
     if transcript = [] then raise (ValueError ''Transcript text is empty'')
     else
       bind_eff (call (ctc_align c (languages self) audio_path transcript (language self))) (\<lambda>words.
       bind_eff (call (codec_encode c (map aw_audio words) (ctc_sample_rate c))) (\<lambda>full_codes.
       bind_eff (call (speaker_words (ctc_sample_rate c) full_codes 0 words)) (\<lambda>data.
       ret \<lparr>sp_text = transcript, sp_words = data, sp_language = language self\<rparr>))))"

text \<open>
  The raw token spans the loop cuts, before the placeholder, and the row they are cut from.
\<close>

fun word_spans :: "int \<Rightarrow> int list \<Rightarrow> int \<Rightarrow> 'a AlignedWord list \<Rightarrow> int list list" where
  "word_spans sample_rate row start [] = []"
| "word_spans sample_rate row start (i # rest) =
     py_slice row start (token_end sample_rate (aw_x1 i))
       # word_spans sample_rate row (token_end sample_rate (aw_x1 i)) rest"

definition encoded_row :: "int list list list \<Rightarrow> int list" where
  "encoded_row full_codes = (case full_codes of (row # _) # _ \<Rightarrow> row | _ \<Rightarrow> [])"

section \<open>The audio region of a token sequence\<close>

text \<open>
  Modelled from the spec: \<open>PromptProcessor.extract_audio_from_tokens\<close>, whose file
  (\<open>prompt_processor.py\<close>) is not among the sources. The spec: it "scans the sequence for
  the audio-token region delimited by reserved sentinel IDs and returns the enclosed
  subsequence verbatim"; it "returns empty if no delimited region is found". The two
  sentinel IDs are parameters; the region is the one opened by the first start sentinel.
\<close>

definition spec_extract_audio_from_tokens :: "int \<Rightarrow> int \<Rightarrow> int list \<Rightarrow> int list" where
  "spec_extract_audio_from_tokens audio_start audio_end tokens =
     (case dropWhile (\<lambda>t. t \<noteq> audio_start) tokens of
        [] \<Rightarrow> []
      | s # after \<Rightarrow>
          if audio_end \<in> set after then takeWhile (\<lambda>t. t \<noteq> audio_end) after else [])"

text \<open>
  A sentinel-delimited region: a start sentinel at some position and an end sentinel at a
  later one.
\<close>

definition has_audio_region :: "int \<Rightarrow> int \<Rightarrow> int list \<Rightarrow> bool" where
  "has_audio_region audio_start audio_end tokens =
     (\<exists>j \<in> set [0..<length tokens]. \<exists>i \<in> set [0..<j].
        tokens ! i = audio_start \<and> tokens ! j = audio_end)"

section \<open>Example collaborators\<close>

text \<open>
  A toy set of components on which the functions above can be run: the prompt is the text,
  a token is a character's code point, the backend echoes the prompt it is given, every
  token is an audio token, a waveform is the list of the tokens it was decoded from, and
  the codec refuses to decode fewer than three tokens.
\<close>

definition demo_speaker :: Speaker where
  "demo_speaker =
     \<lparr>sp_text = ''hi'',
      sp_words = [\<lparr>word = ''hi'', duration = 1 / 25, codes = [11, 12, 13]\<rparr>],
      sp_language = ''ja''\<rparr>"

definition demo_words :: "int list AlignedWord list" where
  "demo_words =
     [\<lparr>aw_word = ''hi'', aw_audio = [0, 0], aw_x1 = 640\<rparr>,
      \<lparr>aw_word = ''a'', aw_audio = [0], aw_x1 = 700\<rparr>]"

definition demo :: "(int list, unit) collaborators" where
  "demo =
     \<lparr>get_completion_prompt = (\<lambda>text_in lang speaker. Inr text_in),
      tokenizer_encode = (\<lambda>prompt. Inr (map (\<lambda>ch. int (of_char ch)) prompt)),
      extract_audio_from_tokens = (\<lambda>tokens. tokens),
      codec_decode = (\<lambda>tokens. if length tokens < 3
                                then Inl (CollaboratorError ''input too short'')
                                else Inr tokens),
      codec_encode = (\<lambda>audios rate. Inr [[[11, 12, 13]]]),
      codec_sr = 24000,
      model_generate = (\<lambda>input_ids cfg. Inr input_ids),
      model_generate_stream = (\<lambda>input_ids cfg. Inr input_ids),
      exl2_model_generate = (\<lambda>prompt cfg dyn. Inr (map (\<lambda>ch. int (of_char ch)) prompt)),
      transcribe_once = (\<lambda>path model device. Inr ''hi a''),
      ctc_align = (\<lambda>langs path transcript lang. Inr demo_words),
      ctc_sample_rate = 16000,
      json_load = (\<lambda>path. if path = ''/pkg/default_speakers/ja_male_1.json''
                            then Inr demo_speaker
                            else Inl (CollaboratorError ''No such file or directory'')),
      ENABLE_PLAYBACK = False\<rparr>"

definition demo_sentinels :: "(int list, unit) collaborators" where
  "demo_sentinels = demo\<lparr>extract_audio_from_tokens := spec_extract_audio_from_tokens 1000 1001\<rparr>"

definition demo_interface :: Interface where
  "demo_interface =
     init_interface
       \<lparr>cfg_language = ''en'', cfg_languages = [''en'', ''ja''], cfg_verbose = False,
        max_seq_length = 4096\<rparr>"

definition demo_interface_ja :: Interface where
  "demo_interface_ja = demo_interface\<lparr>language := ''ja''\<rparr>"


definition demo_enrolled :: Speaker where
  "demo_enrolled =
     \<lparr>sp_text = ''hi a'',
      sp_words = [\<lparr>word = ''hi'', duration = 1 / 25, codes = [11, 12, 13]\<rparr>,
                  \<lparr>word = ''a'', duration = 1 / 100, codes = [1]\<rparr>],
      sp_language = ''en''\<rparr>"



section \<open>Facts about the effect combinators\<close>

lemma bind_eff_Inl [simp]: "bind_eff (Inl e, ev) f = (Inl e, ev)"
  by (simp add: bind_eff_def)

lemma bind_eff_Inr [simp]: "bind_eff (Inr x, ev) f = (fst (f x), ev @ snd (f x))"
  by (simp add: bind_eff_def)

lemma prepare_prompt_events: "snd (prepare_prompt c self text_in speaker) = []"
  by (simp add: prepare_prompt_def call_def bind_eff_def split: sum.splits)

lemma prepare_prompt_exl2_events: "snd (prepare_prompt_exl2 c self text_in speaker) = []"
  by (simp add: prepare_prompt_exl2_def call_def)

lemma prepare_prompt_pair:
  "fst (prepare_prompt c self text_in speaker) = r \<Longrightarrow> prepare_prompt c self text_in speaker = (r, [])"
  using prepare_prompt_events [of c self text_in speaker] by (simp add: prod_eq_iff)

lemma prepare_prompt_exl2_pair:
  "fst (prepare_prompt_exl2 c self text_in speaker) = r \<Longrightarrow> prepare_prompt_exl2 c self text_in speaker = (r, [])"
  using prepare_prompt_exl2_events [of c self text_in speaker] by (simp add: prod_eq_iff)

section \<open>The max-length gate\<close>


lemma check_accepts:
  assumes "max_len = Some m" "m \<le> max_seq_length (config self)"
  shows "check_generation_max_length self max_len = (Inr (), [])"
  using assms by (simp add: check_generation_max_length_def ret_def)






section \<open>The streaming loop\<close>

lemma stream_fill:
  "0 < cs \<Longrightarrow> length buf mod cs + length pre < cs \<Longrightarrow>
   stream_loop c vb (int cs) buf (pre @ rest) = stream_loop c vb (int cs) (buf @ pre) rest"
proof (induction pre arbitrary: buf)
  case Nil
  then show ?case by simp
next
  case (Cons x pre)
  have step: "length (buf @ [x]) mod cs = length buf mod cs + 1"
    using Cons.prems by (simp add: mod_Suc)
  then have "length (buf @ [x]) mod cs \<noteq> 0" by simp
  then have nz: "int (length (buf @ [x])) mod int cs \<noteq> 0"
    by (metis of_nat_0 of_nat_eq_iff zmod_int)
  have "stream_loop c vb (int cs) (buf @ [x]) (pre @ rest)
        = stream_loop c vb (int cs) ((buf @ [x]) @ pre) rest"
    using Cons.prems step by (intro Cons.IH) auto
  then show ?case using Cons.prems nz by (simp add: Let_def)
qed

lemma stream_boundary_ok:
  assumes "chunk_size \<noteq> 0" "int (length buf + 1) mod chunk_size = 0"
    and "get_audio c (buf @ [t]) = (Inr a, ev)"
  shows "stream_loop c vb chunk_size buf (t # rest) =
         yield_out (new_output c a) ev (stream_loop c vb chunk_size [] rest)"
  using assms by (simp add: Let_def)


lemma stream_chunk_ok:
  assumes "0 < cs" "length chunk = cs" "fst (get_audio c chunk) = Inr a"
  shows "fst (stream_loop c vb (int cs) [] (chunk @ rest)) =
         (new_output c a # fst (fst (stream_loop c vb (int cs) [] rest)),
          snd (fst (stream_loop c vb (int cs) [] rest)))"
proof -
  from assms obtain pre t where ch: "chunk = pre @ [t]"
    by (metis length_greater_0_conv rev_exhaust)
  obtain ev where ga: "get_audio c (pre @ [t]) = (Inr a, ev)"
    using assms(3) ch by (cases "get_audio c chunk") auto
  have "stream_loop c vb (int cs) [] (pre @ (t # rest)) = stream_loop c vb (int cs) ([] @ pre) (t # rest)"
    using assms ch by (intro stream_fill) auto
  moreover have "stream_loop c vb (int cs) pre (t # rest) =
         yield_out (new_output c a) ev (stream_loop c vb (int cs) [] rest)"
    using assms ch ga by (intro stream_boundary_ok) auto
  ultimately show ?thesis using ch by (simp add: yield_out_def)
qed


lemma stream_tail:
  assumes "0 < cs" "length chunk < cs" "chunk \<noteq> []" "fst (get_audio c chunk) = Inr a"
  shows "fst (stream_loop c vb (int cs) [] chunk) = ([new_output c a], None)"
proof -
  obtain ev where ga: "get_audio c chunk = (Inr a, ev)"
    using assms(4) by (cases "get_audio c chunk") auto
  have "stream_loop c vb (int cs) [] (chunk @ []) = stream_loop c vb (int cs) ([] @ chunk) []"
    using assms by (intro stream_fill) auto
  then show ?thesis using assms ga by (simp add: yield_out_def Let_def)
qed

lemma generate_stream_runs:
  assumes "fst (prepare_prompt c self text_in speaker) = Inr input_ids"
    and "max_len = Some m" "m \<le> max_seq_length (config self)"
    and "model_generate_stream c input_ids
           \<lparr>temperature = t, repetition_penalty = r, max_length = max_len,
            additional_gen_config = g\<rparr> = Inr tokens"
  shows "fst (generate_stream c self text_in speaker t r max_len chunk_size g)
         = fst (stream_loop c (verbose self) chunk_size [] tokens)"
  using assms(4) prepare_prompt_pair [OF assms(1)] check_accepts [OF assms(2,3)]
  by (simp add: generate_stream_def Let_def when_eff_def emit_def ret_def call_def after_events_def)

text \<open>
  C5. When the backend streams exactly 125 tokens, \<open>chunk_size\<close> is 50 and no chunk
  fails to decode, \<open>generate_stream\<close> yields exactly three outputs and ends normally: the
  audio of tokens 0-49, of tokens 50-99, and of the 25 tokens left at the end of the stream.
\<close>

theorem generate_stream_125_tokens:
  assumes "fst (prepare_prompt c self text_in speaker) = Inr input_ids"
    and "max_len = Some m" "m \<le> max_seq_length (config self)"
    and "model_generate_stream c input_ids
           \<lparr>temperature = t, repetition_penalty = r, max_length = max_len,
            additional_gen_config = g\<rparr> = Inr tokens"
    and "length tokens = 125"
    and "fst (get_audio c (take 50 tokens)) = Inr a1"
    and "fst (get_audio c (take 50 (drop 50 tokens))) = Inr a2"
    and "fst (get_audio c (drop 100 tokens)) = Inr a3"
  shows "fst (generate_stream c self text_in speaker t r max_len 50 g)
         = ([new_output c a1, new_output c a2, new_output c a3], None)"
proof -
  let ?c1 = "take 50 tokens" and ?c2 = "take 50 (drop 50 tokens)" and ?c3 = "drop 100 tokens"
  have split: "tokens = ?c1 @ ?c2 @ ?c3"
    by (metis append_take_drop_id drop_drop numeral_Bit0)
  have l1: "length ?c1 = 50" and l2: "length ?c2 = 50" and l3: "length ?c3 < 50" "?c3 \<noteq> []"
    using assms(5) by auto
  have e3: "fst (stream_loop c (verbose self) (int 50) [] ?c3) = ([new_output c a3], None)"
    using l3 assms(8) by (intro stream_tail) auto
  have e2: "fst (stream_loop c (verbose self) (int 50) [] (?c2 @ ?c3))
            = ([new_output c a2, new_output c a3], None)"
    using stream_chunk_ok [of 50 ?c2 c a2 "verbose self" ?c3] l2 assms(7) e3 by simp
  have e1: "fst (stream_loop c (verbose self) (int 50) [] (?c1 @ ?c2 @ ?c3))
            = ([new_output c a1, new_output c a2, new_output c a3], None)"
    using stream_chunk_ok [of 50 ?c1 c a1 "verbose self" "?c2 @ ?c3"] l1 assms(6) e2 by simp
  have "fst (generate_stream c self text_in speaker t r max_len 50 g)
        = fst (stream_loop c (verbose self) 50 [] tokens)"
    using assms(1-4) by (rule generate_stream_runs)
  then show ?thesis using e1 split by simp
qed

theorem generate_stream_125_tokens_witness:
  "fst (prepare_prompt demo demo_interface (replicate 125 CHR ''a'') None) = Inr (replicate 125 97)
   \<and> (4096::int) \<le> max_seq_length (config demo_interface)
   \<and> length (replicate 125 (97::int)) = 125
   \<and> fst (generate_stream demo demo_interface (replicate 125 CHR ''a'') None (1 / 10) (11 / 10)
            (Some 4096) 50 ())
       = ([new_output demo (Some (replicate 50 97)), new_output demo (Some (replicate 50 97)),
           new_output demo (Some (replicate 25 97))], None)"
proof -
  have p: "fst (prepare_prompt demo demo_interface (replicate 125 CHR ''a'') None) = Inr (replicate 125 97)"
    by (simp add: prepare_prompt_def demo_def call_def)
  have m: "(4096::int) \<le> max_seq_length (config demo_interface)"
    by (simp add: demo_interface_def init_interface_def)
  have s: "model_generate_stream demo (replicate 125 97)
             \<lparr>temperature = 1 / 10, repetition_penalty = 11 / 10, max_length = Some 4096,
              additional_gen_config = ()\<rparr> = Inr (replicate 125 97)"
    by (simp add: demo_def)
  have l: "length (replicate 125 (97::int)) = 125" by simp
  have g1: "fst (get_audio demo (take 50 (replicate 125 97))) = Inr (Some (replicate 50 97))"
    by (simp add: get_audio_def demo_def call_def ret_def)
  have g2: "fst (get_audio demo (take 50 (drop 50 (replicate 125 97)))) = Inr (Some (replicate 50 97))"
    by (simp add: get_audio_def demo_def call_def ret_def)
  have g3: "fst (get_audio demo (drop 100 (replicate 125 97))) = Inr (Some (replicate 25 97))"
    by (simp add: get_audio_def demo_def call_def ret_def)
  show ?thesis
    using p m l generate_stream_125_tokens [OF p refl m s l g1 g2 g3] by simp
qed






section \<open>Normalising names and languages\<close>

lemma py_isspace_lower [simp]: "py_isspace (py_lower_char ch) = py_isspace ch"
  by (auto simp: py_isspace_def py_lower_char_def Let_def)




lemma norm_ja: "py_strip (py_lower ''ja'') = ''ja''"
  by code_simp

lemma norm_male_1: "py_strip (py_lower ''male_1'') = ''male_1''"
  by code_simp

lemma norm_male_2: "py_strip (py_lower ''male_2'') = ''male_2''"
  by code_simp


section \<open>The catalog entry \<open>ja\<close> / \<open>male_1\<close>\<close>

text \<open>
  C3, as the code has it. The built-in catalog has an entry \<open>male_1\<close> under \<open>ja\<close>: after
  \<open>change_language("ja")\<close>, \<open>load_default_speaker("male_1")\<close> loads the file
  \<open>ja_male_1.json\<close> of the default speakers; a name the catalog lacks under \<open>ja\<close>, such as
  \<open>male_2\<close>, raises the speaker-not-found \<open>ValueError\<close>.
\<close>

theorem ja_male_1_in_catalog:
  assumes "change_language self ''ja'' = Inr self'"
  shows "load_default_speaker c base_dir self' ''male_1''
           = load_speaker c (get_speaker_path base_dir ''ja_male_1'')
       \<and> load_default_speaker c base_dir self' ''male_2''
           = raise (ValueError ''Speaker male_2 not found for language ja'')"
proof -
  have "language self' = ''ja''"
    using assms by (auto simp: change_language_def norm_ja Let_def split: if_splits)
  then show ?thesis
    by (simp add: load_default_speaker_def norm_ja norm_male_1 norm_male_2 DEFAULT_SPEAKERS_def)
qed

theorem ja_male_1_in_catalog_witness:
  "change_language demo_interface ''ja'' = Inr demo_interface_ja
   \<and> load_default_speaker demo ''/pkg'' demo_interface_ja ''male_1'' = (Inr demo_speaker, [])
   \<and> load_default_speaker demo ''/pkg'' demo_interface_ja ''male_2''
       = (Inl (ValueError ''Speaker male_2 not found for language ja''), [])"
proof -
  have cl: "change_language demo_interface ''ja'' = Inr demo_interface_ja"
    by (simp add: change_language_def norm_ja demo_interface_def demo_interface_ja_def
        init_interface_def Let_def)
  have p: "load_speaker demo (get_speaker_path ''/pkg'' ''ja_male_1'') = (Inr demo_speaker, [])"
    by (simp add: load_speaker_def get_speaker_path_def DEFAULT_SPEAKERS_DIR_def os_path_join_def
        demo_def call_def)
  show ?thesis
    using cl p ja_male_1_in_catalog [OF cl, of demo "''/pkg''"] by (simp add: raise_def)
qed

text \<open>
  C3 as stated fails: after \<open>change_language("ja")\<close>, \<open>load_default_speaker("male_1")\<close>
  returns the profile stored in \<open>ja_male_1.json\<close> and raises nothing.
\<close>

theorem ja_male_1_counterexample:
  "change_language demo_interface ''ja'' = Inr demo_interface_ja
   \<and> load_default_speaker demo ''/pkg'' demo_interface_ja ''male_1'' = (Inr demo_speaker, [])"
proof -
  have n1: "py_strip (py_lower ''ja'') = ''ja''" by code_simp
  have n2: "py_strip (py_lower ''male_1'') = ''male_1''" by code_simp
  show ?thesis
    by (simp add: change_language_def load_default_speaker_def n1 n2 DEFAULT_SPEAKERS_def
        Let_def load_speaker_def get_speaker_path_def DEFAULT_SPEAKERS_DIR_def os_path_join_def
        demo_def call_def demo_interface_def demo_interface_ja_def init_interface_def)
qed

section \<open>Output without an audio region\<close>

lemma has_audio_region_iff:
  "has_audio_region s e tokens \<longleftrightarrow>
   (\<exists>i j. i < j \<and> j < length tokens \<and> tokens ! i = s \<and> tokens ! j = e)"
  unfolding has_audio_region_def Bex_def set_upt atLeastLessThan_iff by blast

lemma no_region_extract_empty:
  assumes "\<not> has_audio_region s e tokens"
  shows "spec_extract_audio_from_tokens s e tokens = []"
proof (rule ccontr)
  assume ne: "spec_extract_audio_from_tokens s e tokens \<noteq> []"
  let ?P = "\<lambda>t. t \<noteq> s"
  from ne obtain x after where dw: "dropWhile ?P tokens = x # after" and mem: "e \<in> set after"
    by (auto simp: spec_extract_audio_from_tokens_def split: list.splits if_splits)
  have xs: "x = s" using hd_dropWhile [of ?P tokens] dw by auto
  have split: "tokens = takeWhile ?P tokens @ x # after"
    using dw by (metis takeWhile_dropWhile_id)
  from mem obtain k where k: "k < length after" "after ! k = e"
    by (auto simp: in_set_conv_nth)
  let ?i = "length (takeWhile ?P tokens)"
  have "tokens ! ?i = s"
    using split xs by (metis nth_append_length)
  moreover have "tokens ! (?i + Suc k) = e"
    using split k by (metis nth_Cons_Suc nth_append_length_plus)
  moreover have "?i + Suc k < length tokens"
    using k(1) by (subst (2) split) simp
  ultimately have "has_audio_region s e tokens"
    unfolding has_audio_region_iff by (intro exI [of _ ?i] exI [of _ "?i + Suc k"]) simp
  then show False using assms by simp
qed

lemma no_region_drop:
  assumes "\<not> has_audio_region s e tokens"
  shows "\<not> has_audio_region s e (drop n tokens)"
proof
  assume "has_audio_region s e (drop n tokens)"
  then obtain i j where ij: "i < j" "j < length (drop n tokens)"
      "drop n tokens ! i = s" "drop n tokens ! j = e"
    unfolding has_audio_region_iff by blast
  then have "n + i < n + j" "n + j < length tokens" "tokens ! (n + i) = s" "tokens ! (n + j) = e"
    by auto
  then have "has_audio_region s e tokens"
    unfolding has_audio_region_iff by blast
  then show False using assms by simp
qed

lemma get_audio_nothing:
  "extract_audio_from_tokens c tokens = [] \<Longrightarrow>
   get_audio c tokens = (Inr None, [LogWarning ''No audio tokens found in the output''])"
  by (simp add: get_audio_def emit_def ret_def)

text \<open>
  C4. When the token sequence the backend returns holds no sentinel-delimited audio region
  (no start sentinel with an end sentinel after it), \<open>extract_audio_from_tokens\<close> returns the
  empty list on it, and \<open>generate\<close>, on each of the three interfaces, returns normally a
  \<open>ModelOutput\<close> whose audio is \<open>None\<close> and logs the warning of \<open>get_audio\<close>. The call
  is one that reaches the backend: \<open>max_length\<close> passes the check and the prompt is built.
\<close>

theorem generate_without_audio_region:
  assumes "extract_audio_from_tokens c = spec_extract_audio_from_tokens audio_start audio_end"
    and "\<not> has_audio_region audio_start audio_end output"
    and "max_len = Some m" "m \<le> max_seq_length (config self)"
    and "fst (prepare_prompt c self text_in speaker) = Inr input_ids"
    and "model_generate c input_ids
           \<lparr>temperature = t, repetition_penalty = r, max_length = max_len,
            additional_gen_config = g\<rparr> = Inr output"
    and "fst (prepare_prompt_exl2 c self text_in speaker) = Inr prompt"
    and "exl2_model_generate c prompt
           \<lparr>temperature = t, repetition_penalty = r, max_length = max_len,
            additional_gen_config = g\<rparr> d = Inr output"
  shows "extract_audio_from_tokens c output = []
       \<and> fst (generate_hf c self text_in speaker t r max_len g) = Inr (new_output c None)
       \<and> LogWarning ''No audio tokens found in the output''
           \<in> set (snd (generate_hf c self text_in speaker t r max_len g))
       \<and> fst (generate_gguf c self text_in speaker t r max_len g) = Inr (new_output c None)
       \<and> LogWarning ''No audio tokens found in the output''
           \<in> set (snd (generate_gguf c self text_in speaker t r max_len g))
       \<and> fst (generate_exl2 c self text_in speaker t r max_len g d) = Inr (new_output c None)
       \<and> LogWarning ''No audio tokens found in the output''
           \<in> set (snd (generate_exl2 c self text_in speaker t r max_len g d))"
proof -
  have e: "extract_audio_from_tokens c output = []"
    using assms(1) no_region_extract_empty [OF assms(2)] by simp
  have e': "extract_audio_from_tokens c (drop (length input_ids) output) = []"
    using assms(1) no_region_extract_empty [OF no_region_drop [OF assms(2)]] by simp
  note ga = get_audio_nothing [OF e] get_audio_nothing [OF e']
  note pp = prepare_prompt_pair [OF assms(5)] prepare_prompt_exl2_pair [OF assms(7)]
  note ck = check_accepts [OF assms(3,4)]
  have hf: "fst (generate_hf c self text_in speaker t r max_len g) = Inr (new_output c None)
       \<and> LogWarning ''No audio tokens found in the output''
           \<in> set (snd (generate_hf c self text_in speaker t r max_len g))"
    using assms(6) by (simp add: generate_hf_def pp ck ga when_eff_def emit_def ret_def call_def)
  have gguf: "fst (generate_gguf c self text_in speaker t r max_len g) = Inr (new_output c None)
       \<and> LogWarning ''No audio tokens found in the output''
           \<in> set (snd (generate_gguf c self text_in speaker t r max_len g))"
    using assms(6) by (simp add: generate_gguf_def pp ck ga when_eff_def emit_def ret_def call_def)
  have exl2: "fst (generate_exl2 c self text_in speaker t r max_len g d) = Inr (new_output c None)
       \<and> LogWarning ''No audio tokens found in the output''
           \<in> set (snd (generate_exl2 c self text_in speaker t r max_len g d))"
    using assms(8) by (simp add: generate_exl2_def pp ck ga when_eff_def emit_def ret_def call_def)
  show ?thesis using e hf gguf exl2 by simp
qed

theorem generate_without_audio_region_witness:
  "\<not> has_audio_region 1000 1001 [104, 105]
   \<and> fst (generate_hf demo_sentinels demo_interface ''hi'' None (1 / 10) (11 / 10) (Some 4096) ())
       = Inr \<lparr>audio = None, sr = 24000, enable_playback = False\<rparr>
   \<and> fst (generate_gguf demo_sentinels demo_interface ''hi'' None (1 / 10) (11 / 10) (Some 4096) ())
       = Inr \<lparr>audio = None, sr = 24000, enable_playback = False\<rparr>
   \<and> snd (generate_gguf demo_sentinels demo_interface ''hi'' None (1 / 10) (11 / 10) (Some 4096) ())
       = [ModelGenerate, LogWarning ''No audio tokens found in the output'']
   \<and> fst (generate_exl2 demo_sentinels demo_interface ''hi'' None (1 / 10) (11 / 10) (Some 4096) () ())
       = Inr \<lparr>audio = None, sr = 24000, enable_playback = False\<rparr>"
proof -
  have x: "extract_audio_from_tokens demo_sentinels = spec_extract_audio_from_tokens 1000 1001"
    by (simp add: demo_sentinels_def)
  have n: "\<not> has_audio_region 1000 1001 [104, 105]"
    by (simp add: has_audio_region_def)
  have m: "(4096::int) \<le> max_seq_length (config demo_interface)"
    by (simp add: demo_interface_def init_interface_def)
  have p: "fst (prepare_prompt demo_sentinels demo_interface ''hi'' None) = Inr [104, 105]"
    by (simp add: prepare_prompt_def demo_sentinels_def demo_def call_def)
  have g: "model_generate demo_sentinels [104, 105]
             \<lparr>temperature = 1 / 10, repetition_penalty = 11 / 10, max_length = Some 4096,
              additional_gen_config = ()\<rparr> = Inr [104, 105]"
    by (simp add: demo_sentinels_def demo_def)
  have p2: "fst (prepare_prompt_exl2 demo_sentinels demo_interface ''hi'' None) = Inr ''hi''"
    by (simp add: prepare_prompt_exl2_def demo_sentinels_def demo_def call_def)
  have g2: "exl2_model_generate demo_sentinels ''hi''
             \<lparr>temperature = 1 / 10, repetition_penalty = 11 / 10, max_length = Some 4096,
              additional_gen_config = ()\<rparr> () = Inr [104, 105]"
    by (simp add: demo_sentinels_def demo_def)
  have s: "snd (generate_gguf demo_sentinels demo_interface ''hi'' None (1 / 10) (11 / 10) (Some 4096) ())
       = [ModelGenerate, LogWarning ''No audio tokens found in the output'']"
    by (simp add: generate_gguf_def prepare_prompt_def check_generation_max_length_def
      get_audio_def demo_sentinels_def demo_def call_def ret_def emit_def when_eff_def
      spec_extract_audio_from_tokens_def demo_interface_def init_interface_def)
  show ?thesis
    using n s generate_without_audio_region [OF x n refl m p g p2 g2]
    by (simp add: new_output_def demo_sentinels_def demo_def)
qed

section \<open>Speaker enrollment: the word entries\<close>

lemma speaker_words_codes:
  "speaker_words sample_rate full_codes start ws = Inr data \<Longrightarrow>
   map codes data = map (\<lambda>span. if span = [] then [1] else span)
                      (word_spans sample_rate (encoded_row full_codes) start ws)"
proof (induction ws arbitrary: start data)
  case Nil
  then show ?case by simp
next
  case (Cons w ws)
  then show ?case
    by (auto simp: Let_def encoded_row_def split: if_splits list.splits sum.splits)
qed


lemma speaker_words_entries:
  "speaker_words sample_rate full_codes start ws = Inr data \<Longrightarrow> e \<in> set data \<Longrightarrow>
   codes e \<noteq> [] \<and> duration e = py_round2 (of_nat (length (codes e)) / 75)"
proof (induction ws arbitrary: start data)
  case Nil
  then show ?case by simp
next
  case (Cons w ws)
  then show ?case
    by (auto simp: Let_def split: if_splits list.splits sum.splits)
qed

lemma create_speaker_result:
  assumes "fst (create_speaker c self audio_path transcript whisper_model whisper_device) = Inr P"
  shows "\<exists>ws full_codes.
           ctc_align c (languages self) audio_path (sp_text P) (language self) = Inr ws
         \<and> codec_encode c (map aw_audio ws) (ctc_sample_rate c) = Inr full_codes
         \<and> speaker_words (ctc_sample_rate c) full_codes 0 ws = Inr (sp_words P)
         \<and> sp_text P \<noteq> [] \<and> sp_language P = language self"
  using assms
  by (auto simp: create_speaker_def bind_eff_def call_def ret_def emit_def raise_def
      split: option.splits sum.splits if_splits)

lemma py_round_close: "\<bar>of_int (py_round y) - y\<bar> \<le> 1 / 2"
proof -
  have "of_int \<lfloor>y\<rfloor> \<le> y" "y < of_int \<lfloor>y\<rfloor> + 1" by linarith+
  then show ?thesis by (auto simp: py_round_def Let_def)
qed

lemma py_round2_close: "\<bar>py_round2 x - x\<bar> \<le> 1 / 200"
proof -
  have "\<bar>of_int (py_round (x * 100)) - x * 100\<bar> \<le> 1 / 2" by (rule py_round_close)
  then show ?thesis by (simp add: py_round2_def abs_le_iff field_simps)
qed

text \<open>
  C6. Every word entry of a profile that \<open>create_speaker\<close> returns has at least one code:
  the codes of the words are the token spans cut from the encoding, in order, with every
  empty span replaced by the single placeholder token 1.
\<close>

theorem create_speaker_codes_nonempty:
  assumes "fst (create_speaker c self audio_path transcript whisper_model whisper_device) = Inr P"
  shows "(\<forall>e \<in> set (sp_words P). 1 \<le> length (codes e))
       \<and> (\<forall>ws full_codes.
            ctc_align c (languages self) audio_path (sp_text P) (language self) = Inr ws
            \<longrightarrow> codec_encode c (map aw_audio ws) (ctc_sample_rate c) = Inr full_codes
            \<longrightarrow> map codes (sp_words P)
                  = map (\<lambda>span. if span = [] then [1] else span)
                      (word_spans (ctc_sample_rate c) (encoded_row full_codes) 0 ws))"
proof -
  obtain ws full_codes where r:
    "ctc_align c (languages self) audio_path (sp_text P) (language self) = Inr ws"
    "codec_encode c (map aw_audio ws) (ctc_sample_rate c) = Inr full_codes"
    "speaker_words (ctc_sample_rate c) full_codes 0 ws = Inr (sp_words P)"
    using create_speaker_result [OF assms] by blast
  have "\<forall>e \<in> set (sp_words P). 1 \<le> length (codes e)"
    using speaker_words_entries [OF r(3)] by (auto simp: Suc_le_eq)
  moreover have "map codes (sp_words P)
                  = map (\<lambda>span. if span = [] then [1] else span)
                      (word_spans (ctc_sample_rate c) (encoded_row full_codes) 0 ws)"
    using r(3) by (rule speaker_words_codes)
  ultimately show ?thesis using r(1,2) by simp
qed

lemma demo_create_speaker:
  "fst (create_speaker demo demo_interface ''a.wav'' None ''turbo'' None) = Inr demo_enrolled"
  by code_simp

theorem create_speaker_codes_nonempty_witness:
  "fst (create_speaker demo demo_interface ''a.wav'' None ''turbo'' None) = Inr demo_enrolled
   \<and> list_all (\<lambda>e. 1 \<le> length (codes e)) (sp_words demo_enrolled)
   \<and> word_spans (ctc_sample_rate demo) (encoded_row [[[11, 12, 13]]]) 0 demo_words = [[11, 12, 13], []]
   \<and> map codes (sp_words demo_enrolled) = [[11, 12, 13], [1]]"
proof -
  have a: "ctc_align demo (languages demo_interface) ''a.wav'' (sp_text demo_enrolled)
             (language demo_interface) = Inr demo_words"
    by (simp add: demo_def)
  have b: "codec_encode demo (map aw_audio demo_words) (ctc_sample_rate demo) = Inr [[[11, 12, 13]]]"
    by (simp add: demo_def)
  have w: "word_spans (ctc_sample_rate demo) (encoded_row [[[11, 12, 13]]]) 0 demo_words
           = [[11, 12, 13], []]"
    by code_simp
  show ?thesis
    using demo_create_speaker a b w create_speaker_codes_nonempty [OF demo_create_speaker]
    by (simp add: list_all_iff)
qed

text \<open>
  C7. For every word entry of a profile that \<open>create_speaker\<close> returns, the duration is the
  number of its codes divided by 75, rounded to two decimals, and so lies within 0.02 of that
  quotient. The quotient and the rounding are exact here. Python computes both in binary
  floating point; a quotient n/75 is never half way between two hundredths (its hundredfold
  has fractional part 0, 1/3 or 2/3), so for every list that fits in memory the float
  computation arrives at the same hundredth.
\<close>

theorem create_speaker_duration_law:
  assumes "fst (create_speaker c self audio_path transcript whisper_model whisper_device) = Inr P"
  shows "\<forall>e \<in> set (sp_words P).
           duration e = py_round2 (of_nat (length (codes e)) / 75)
         \<and> \<bar>duration e - of_nat (length (codes e)) / 75\<bar> < 2 / 100"
proof
  fix e assume e: "e \<in> set (sp_words P)"
  obtain ws full_codes where r:
    "ctc_align c (languages self) audio_path (sp_text P) (language self) = Inr ws"
    "speaker_words (ctc_sample_rate c) full_codes 0 ws = Inr (sp_words P)"
    using create_speaker_result [OF assms] by blast
  have d: "duration e = py_round2 (of_nat (length (codes e)) / 75)"
    using speaker_words_entries [OF r(2) e] by simp
  have "\<bar>py_round2 (of_nat (length (codes e)) / 75) - of_nat (length (codes e)) / 75\<bar> \<le> 1 / 200"
    by (rule py_round2_close)
  then show "duration e = py_round2 (of_nat (length (codes e)) / 75)
         \<and> \<bar>duration e - of_nat (length (codes e)) / 75\<bar> < 2 / 100"
    using d by simp
qed

theorem create_speaker_duration_law_witness:
  "fst (create_speaker demo demo_interface ''a.wav'' None ''turbo'' None) = Inr demo_enrolled
   \<and> map duration (sp_words demo_enrolled) = [1 / 25, 1 / 100]
   \<and> list_all (\<lambda>e. \<bar>duration e - of_nat (length (codes e)) / 75\<bar> < 2 / 100) (sp_words demo_enrolled)"
  using demo_create_speaker create_speaker_duration_law [OF demo_create_speaker]
  by (simp add: list_all_iff demo_enrolled_def)

section \<open>Speaker enrollment: the spans and the encoding\<close>









end
